theory Spec2Isabelle
  imports Complex_Main "HOL-Library.Char_ord" "HOL-Library.List_Lexorder"
begin

section \<open>ClipCraft download server: acquisition and clip pipeline\<close>

text \<open>
  The repository holds two variants of the same Express server: the original
  \<^verbatim>\<open>server.js\<close> and its TypeScript successor (the file announcing itself as
  "ClipCraft Download Server v2.0"). Where the two agree a single definition embeds both;
  where they differ the definitions carry the suffixes \<open>_js\<close> and \<open>_ts\<close>.
\<close>

subsection \<open>Transcription: grouping words into captions\<close>

text \<open>
  \<^verbatim>\<open>interface TranscriptionWord { word: string; start: number; end: number }\<close>.
  The times are only copied, never computed with, so finite doubles are read as reals.
\<close>

record TranscriptionWord =
  tw_word :: string
  tw_start :: real
  tw_end :: real

record CaptionWord =
  cw_text :: string
  cw_startTime :: real
  cw_endTime :: real

record Caption =
  c_text :: string
  c_words :: "CaptionWord list"
  c_startTime :: real
  c_endTime :: real

text \<open>\<^verbatim>\<open>{ text: '', words: [], startTime: 0, endTime: 0 }\<close>\<close>

definition emptyCaption :: Caption where
  "emptyCaption = \<lparr>c_text = [], c_words = [], c_startTime = 0, c_endTime = 0\<rparr>"

text \<open>
  One call of the \<^verbatim>\<open>forEach\<close> callback on \<open>word\<close> at index \<open>i\<close> of an array of
  length \<open>n\<close>: the pair is \<open>(currentCaption, captions)\<close> before and after.
\<close>

definition pushWord :: "nat \<Rightarrow> nat \<Rightarrow> TranscriptionWord \<Rightarrow> Caption \<times> Caption list \<Rightarrow> Caption \<times> Caption list" where
  "pushWord n i word cc =
     (let currentCaption = fst cc; captions = snd cc;
          c1 = currentCaption\<lparr>c_words := c_words currentCaption @
                 [\<lparr>cw_text = tw_word word, cw_startTime = tw_start word, cw_endTime = tw_end word\<rparr>]\<rparr>;
          c2 = c1\<lparr>c_text := c_text c1 @ (if c_text c1 \<noteq> [] then '' '' else []) @ tw_word word\<rparr>;
          c3 = (if i = 0 then c2\<lparr>c_startTime := tw_start word\<rparr> else c2);
          c4 = c3\<lparr>c_endTime := tw_end word\<rparr>
      in if length (c_words c4) \<ge> 8 \<or> int i = int n - 1
         then (emptyCaption, captions @ [c4])
         else (c4, captions))"

fun forEachWord :: "nat \<Rightarrow> nat \<Rightarrow> TranscriptionWord list \<Rightarrow> Caption \<times> Caption list \<Rightarrow> Caption \<times> Caption list" where
  "forEachWord n i [] cc = cc"
| "forEachWord n i (word # rest) cc = forEachWord n (Suc i) rest (pushWord n i word cc)"

text \<open>
  The "Format captions" block; \<open>None\<close> is a response without a \<^verbatim>\<open>words\<close> field
  (\<^verbatim>\<open>if (response.words)\<close>).
\<close>

definition formatCaptions :: "TranscriptionWord list option \<Rightarrow> Caption list" where
  "formatCaptions words =
     (case words of
        None \<Rightarrow> []
      | Some ws \<Rightarrow> snd (forEachWord (length ws) 0 ws (emptyCaption, [])))"

definition mkWord :: "string \<Rightarrow> real \<Rightarrow> real \<Rightarrow> TranscriptionWord" where
  "mkWord w s e = \<lparr>tw_word = w, tw_start = s, tw_end = e\<rparr>"

definition nineWords :: "TranscriptionWord list" where
  "nineWords =
     [mkWord ''hi'' 0 2, mkWord ''there'' 2 5, mkWord ''this'' 5 7, mkWord ''is'' 7 8,
      mkWord ''a'' 8 9, mkWord ''test'' 9 12, mkWord ''of'' 12 13, mkWord ''the'' 13 14,
      mkWord ''chunks'' 14 19]"

subsection \<open>Values of a JSON request body\<close>

text \<open>
  A field of \<^verbatim>\<open>req.body\<close> as \<^verbatim>\<open>express.json()\<close> delivers it. \<open>JObject\<close>
  stands for any object or array. Numbers are the finite doubles, read as reals.
\<close>

datatype jsval = JUndefined | JNull | JBool bool | JNum real | JStr string | JObject

text \<open>The truth value JavaScript gives a value in \<^verbatim>\<open>!url\<close> and \<^verbatim>\<open>title || 'Video'\<close>.\<close>

fun truthy :: "jsval \<Rightarrow> bool" where
  "truthy JUndefined = False"
| "truthy JNull = False"
| "truthy (JBool b) = b"
| "truthy (JNum r) = (r \<noteq> 0)"
| "truthy (JStr s) = (s \<noteq> [])"
| "truthy JObject = True"

text \<open>\<^verbatim>\<open>typeof v === 'string'\<close>, and the characters of a string value.\<close>

fun isString :: "jsval \<Rightarrow> bool" where
  "isString (JStr s) = True"
| "isString v = False"

fun stringOf :: "jsval \<Rightarrow> string" where
  "stringOf (JStr s) = s"
| "stringOf v = []"

subsection \<open>Decimal rendering of numbers in template strings\<close>

definition digit :: "nat \<Rightarrow> char" where
  "digit d = ''0123456789'' ! d"

fun string_of_nat :: "nat \<Rightarrow> string" where
  "string_of_nat n = (if n < 10 then [digit n] else string_of_nat (n div 10) @ [digit (n mod 10)])"

declare string_of_nat.simps [simp del]

definition string_of_int :: "int \<Rightarrow> string" where
  "string_of_int i = (if i < 0 then CHR ''-'' # string_of_nat (nat (- i)) else string_of_nat (nat i))"

subsection \<open>The download queue\<close>

datatype status = Queued | Downloading | Complete | Error

text \<open>
  \<^verbatim>\<open>interface DownloadQueueItem\<close>. \<open>id'\<close> is the field \<^verbatim>\<open>id\<close>. The item of the
  legacy endpoint of \<^verbatim>\<open>server.js\<close> has no \<^verbatim>\<open>addedAt\<close>.
\<close>

record DownloadQueueItem =
  id' :: string
  url :: jsval
  title :: jsval
  status :: status
  progress :: real
  addedAt :: "string option"
  filename :: "string option"
  error :: "string option"

text \<open>
  Items are JavaScript objects shared by reference between \<^verbatim>\<open>downloadQueue\<close>,
  \<^verbatim>\<open>currentDownload\<close> and the handlers of a running download, so the state keeps them
  in a store and the three variables of the module hold addresses.

  Node runs every handler to its end (or to its first \<^verbatim>\<open>await\<close>) before it takes the
  next event. What waits between two events is written down in two lists:
  \<open>loops\<close> holds, for every activation of \<^verbatim>\<open>processQueue\<close> suspended at
  \<^verbatim>\<open>await downloadVideo(item)\<close>, its local \<^verbatim>\<open>item\<close>; \<open>legacy\<close> holds the item of
  every \<^verbatim>\<open>POST /download\<close> request whose promise is not settled. Each entry owns one
  yt-dlp subprocess.

  \<open>added\<close>, \<open>started\<close> and \<open>removed\<close> are history variables that no handler reads:
  the items pushed by \<^verbatim>\<open>/queue/add\<close>, those handed to \<^verbatim>\<open>downloadVideo\<close> by the drain
  loop, and those taken off by \<^verbatim>\<open>downloadQueue.shift()\<close>, each in order of time.
\<close>

record server =
  heap :: "nat \<Rightarrow> DownloadQueueItem option"
  nextAddr :: nat
  downloadQueue :: "nat list"
  currentDownload :: "nat option"
  isProcessing :: bool
  loops :: "nat list"
  legacy :: "nat list"
  added :: "nat list"
  started :: "nat list"
  removed :: "nat list"

definition init :: server where
  "init = \<lparr>heap = (\<lambda>a. None), nextAddr = 0, downloadQueue = [], currentDownload = None,
            isProcessing = False, loops = [], legacy = [], added = [], started = [], removed = []\<rparr>"

text \<open>
  What differs between the two servers, and what the source leaves to its environment:
  \<open>validURL\<close> is "\<^verbatim>\<open>new URL(url)\<close> does not throw" and \<open>PORT\<close> the port number.
\<close>

datatype variant = JS | TS

record config =
  variant :: variant
  validURL :: "string \<Rightarrow> bool"
  PORT :: nat

definition newItem :: "DownloadQueueItem \<Rightarrow> server \<Rightarrow> nat \<times> server" where
  "newItem it s = (nextAddr s, s\<lparr>heap := (heap s)(nextAddr s \<mapsto> it), nextAddr := Suc (nextAddr s)\<rparr>)"

definition modify :: "nat \<Rightarrow> (DownloadQueueItem \<Rightarrow> DownloadQueueItem) \<Rightarrow> server \<Rightarrow> server" where
  "modify a f s = s\<lparr>heap := (heap s)(a := map_option f (heap s a))\<rparr>"

definition videoName :: "DownloadQueueItem \<Rightarrow> string" where
  "videoName it = ''video_'' @ id' it @ ''.mp4''"

definition localUrl :: "nat \<Rightarrow> string \<Rightarrow> string" where
  "localUrl port name = ''http://localhost:'' @ string_of_nat port @ ''/downloads/'' @ name"

text \<open>
  The top of the \<^verbatim>\<open>while\<close> loop of \<^verbatim>\<open>processQueue\<close>: with a job in the queue, the
  body up to \<^verbatim>\<open>await downloadVideo(item)\<close>; with none, the two assignments after the loop.
\<close>

definition loopHead :: "server \<Rightarrow> server" where
  "loopHead s =
     (case downloadQueue s of
        [] \<Rightarrow> s\<lparr>currentDownload := None, isProcessing := False\<rparr>
      | item # rest \<Rightarrow>
          (modify item (\<lambda>it. it\<lparr>status := Downloading\<rparr>) (s\<lparr>currentDownload := Some item\<rparr>))
            \<lparr>loops := loops s @ [item], started := started s @ [item]\<rparr>)"

definition processQueue :: "server \<Rightarrow> server" where
  "processQueue s =
     (if isProcessing s \<or> length (downloadQueue s) = 0 then s
      else loopHead (s\<lparr>isProcessing := True\<rparr>))"

text \<open>
  How a download ends: the \<^verbatim>\<open>close\<close> event with the exit code (\<^verbatim>\<open>null\<close> after a
  signal), or the \<^verbatim>\<open>error\<close> event of a subprocess that could not be spawned, with the
  message of the runtime's error.
\<close>

datatype outcome = Close "int option" | SpawnError string

definition codeText :: "int option \<Rightarrow> string" where
  "codeText c = (case c of None \<Rightarrow> ''null'' | Some n \<Rightarrow> string_of_int n)"

text \<open>
  The \<^verbatim>\<open>close\<close> and \<^verbatim>\<open>error\<close> handlers of \<^verbatim>\<open>downloadVideo\<close>: the item as they leave
  it, and \<open>None\<close> for \<^verbatim>\<open>resolve()\<close> or the message of the error passed to \<^verbatim>\<open>reject\<close>.
\<close>

definition settle :: "nat \<Rightarrow> outcome \<Rightarrow> DownloadQueueItem \<Rightarrow> DownloadQueueItem \<times> string option" where
  "settle port out it =
     (case out of
        Close code \<Rightarrow>
          (if code = Some 0
           then (it\<lparr>filename := Some (videoName it), url := JStr (localUrl port (videoName it))\<rparr>, None)
           else (it, Some (''Download failed with code '' @ codeText code)))
      | SpawnError msg \<Rightarrow> (it, Some msg))"

text \<open>
  The \<^verbatim>\<open>stdout\<close> handler on one chunk: \<open>match\<close> is the number the pattern
  \<^verbatim>\<open>/(\d+\.?\d*)%/\<close> finds in it, if any, and \<open>mark\<close> says that the chunk includes
  \<^verbatim>\<open>'Destination:'\<close> or \<^verbatim>\<open>'Merging'\<close>.
\<close>

definition onStdout :: "real option \<Rightarrow> bool \<Rightarrow> DownloadQueueItem \<Rightarrow> DownloadQueueItem" where
  "onStdout match mark it =
     (let it1 = (case match of None \<Rightarrow> it | Some p \<Rightarrow> it\<lparr>progress := p\<rparr>)
      in if mark then it1\<lparr>filename := Some (videoName it1)\<rparr> else it1)"

definition dropAt :: "nat \<Rightarrow> 'a list \<Rightarrow> 'a list" where
  "dropAt k xs = take k xs @ drop (Suc k) xs"

text \<open>
  The rest of the loop body after \<^verbatim>\<open>await downloadVideo(item)\<close> for the activation
  whose local \<^verbatim>\<open>item\<close> is \<open>item\<close>: the \<^verbatim>\<open>try\<close> or the \<^verbatim>\<open>catch\<close> branch,
  \<^verbatim>\<open>downloadQueue.shift()\<close>, and the loop test again.
\<close>

definition afterAwait :: "nat \<Rightarrow> string option \<Rightarrow> server \<Rightarrow> server" where
  "afterAwait item rejected s =
     (let s1 = (case rejected of
                  None \<Rightarrow> modify item (\<lambda>it. it\<lparr>status := Complete, progress := 100\<rparr>) s
                | Some message \<Rightarrow> modify item (\<lambda>it. it\<lparr>status := Error, error := Some message\<rparr>) s);
          s2 = s1\<lparr>downloadQueue := drop 1 (downloadQueue s1),
                  removed := removed s1 @ take 1 (downloadQueue s1)\<rparr>
      in loopHead s2)"

text \<open>The subprocess of the \<open>k\<close>-th suspended drain loop ends.\<close>

definition loopSettle :: "config \<Rightarrow> nat \<Rightarrow> outcome \<Rightarrow> server \<Rightarrow> server" where
  "loopSettle cfg k out s =
     (if k < length (loops s) then
        (let item = loops s ! k in
         case heap s item of
           None \<Rightarrow> s
         | Some it \<Rightarrow>
             (let (it', rejected) = settle (PORT cfg) out it
              in afterAwait item rejected (s\<lparr>heap := (heap s)(item \<mapsto> it'), loops := dropAt k (loops s)\<rparr>)))
      else s)"

definition loopStdout :: "nat \<Rightarrow> real option \<Rightarrow> bool \<Rightarrow> server \<Rightarrow> server" where
  "loopStdout k match mark s =
     (if k < length (loops s) then modify (loops s ! k) (onStdout match mark) s else s)"

subsection \<open>HTTP handlers of the queue\<close>

text \<open>A response: the status code and what the JSON body carries.\<close>

datatype body =
    ErrorBody string
  | ErrorDetails string string
  | Added string nat
  | Success
  | Created string string nat
  | Transcript string "Caption list"

type_synonym response = "nat \<times> body"

text \<open>
  \<^verbatim>\<open>POST /queue/add\<close> after its checks, the same in both servers: \<open>now\<close> is
  \<^verbatim>\<open>Date.now()\<close> and \<open>stamp\<close> is \<^verbatim>\<open>new Date().toISOString()\<close>.
\<close>

definition enqueue :: "jsval \<Rightarrow> jsval \<Rightarrow> nat \<Rightarrow> string \<Rightarrow> server \<Rightarrow> response \<times> server" where
  "enqueue u t now stamp s =
     (let ident = string_of_nat now;
          item = \<lparr>id' = ident, url = u, title = (if truthy t then t else JStr ''Video''),
                  status = Queued, progress = 0, addedAt = Some stamp, filename = None, error = None\<rparr>;
          (a, s1) = newItem item s;
          s2 = s1\<lparr>downloadQueue := downloadQueue s1 @ [a], added := added s1 @ [a]\<rparr>;
          s3 = (if \<not> isProcessing s2 then processQueue s2 else s2)
      in ((200, Added ident (length (downloadQueue s3))), s3))"

text \<open>
  The checks of the TypeScript server: \<^verbatim>\<open>!url || typeof url !== 'string'\<close>, its two
  operands tested in turn, then \<^verbatim>\<open>new URL(url)\<close>.
\<close>

definition queue_add_ts :: "config \<Rightarrow> jsval \<Rightarrow> jsval \<Rightarrow> nat \<Rightarrow> string \<Rightarrow> server \<Rightarrow> response \<times> server" where
  "queue_add_ts cfg u t now stamp s =
     (if \<not> truthy u then ((400, ErrorBody ''URL is required and must be a string''), s)
      else if \<not> isString u then ((400, ErrorBody ''URL is required and must be a string''), s)
      else if \<not> validURL cfg (stringOf u) then ((400, ErrorBody ''Invalid URL format''), s)
      else enqueue u t now stamp s)"

definition queue_add_js :: "jsval \<Rightarrow> jsval \<Rightarrow> nat \<Rightarrow> string \<Rightarrow> server \<Rightarrow> response \<times> server" where
  "queue_add_js u t now stamp s =
     (if \<not> truthy u then ((400, ErrorBody ''URL is required''), s)
      else enqueue u t now stamp s)"

definition queue_add :: "config \<Rightarrow> jsval \<Rightarrow> jsval \<Rightarrow> nat \<Rightarrow> string \<Rightarrow> server \<Rightarrow> response \<times> server" where
  "queue_add cfg u t now stamp s =
     (case variant cfg of TS \<Rightarrow> queue_add_ts cfg u t now stamp s | JS \<Rightarrow> queue_add_js u t now stamp s)"

text \<open>\<^verbatim>\<open>Array.prototype.findIndex\<close>, with \<open>None\<close> for \<^verbatim>\<open>-1\<close>.\<close>

fun findIndex :: "('a \<Rightarrow> bool) \<Rightarrow> 'a list \<Rightarrow> nat option" where
  "findIndex P [] = None"
| "findIndex P (x # xs) = (if P x then Some 0 else map_option Suc (findIndex P xs))"

text \<open>\<^verbatim>\<open>DELETE /queue/:id\<close>.\<close>

definition queue_cancel :: "string \<Rightarrow> server \<Rightarrow> response \<times> server" where
  "queue_cancel ident s =
     (case findIndex (\<lambda>d. map_option id' (heap s d) = Some ident) (downloadQueue s) of
        Some index \<Rightarrow> ((200, Success), s\<lparr>downloadQueue := dropAt index (downloadQueue s)\<rparr>)
      | None \<Rightarrow> ((404, ErrorBody ''Download not found''), s))"

text \<open>
  \<^verbatim>\<open>POST /download\<close>, the legacy endpoint, up to the call of \<^verbatim>\<open>downloadVideo\<close>: the
  response is \<open>None\<close> while the request waits for its download.
\<close>

definition startLegacy :: "jsval \<Rightarrow> nat \<Rightarrow> string option \<Rightarrow> server \<Rightarrow> response option \<times> server" where
  "startLegacy u now stamp s =
     (let item = \<lparr>id' = string_of_nat now, url = u, title = JStr ''Video'', status = Downloading,
                  progress = 0, addedAt = stamp, filename = None, error = None\<rparr>;
          (a, s1) = newItem item s
      in (None, s1\<lparr>currentDownload := Some a, legacy := legacy s1 @ [a]\<rparr>))"

definition download_ts :: "config \<Rightarrow> jsval \<Rightarrow> nat \<Rightarrow> string \<Rightarrow> server \<Rightarrow> response option \<times> server" where
  "download_ts cfg u now stamp s =
     (if \<not> truthy u then (Some (400, ErrorBody ''URL is required and must be a string''), s)
      else if \<not> isString u then (Some (400, ErrorBody ''URL is required and must be a string''), s)
      else if \<not> validURL cfg (stringOf u) then (Some (400, ErrorBody ''Invalid URL format''), s)
      else startLegacy u now (Some stamp) s)"

definition download_js :: "jsval \<Rightarrow> nat \<Rightarrow> server \<Rightarrow> response option \<times> server" where
  "download_js u now s =
     (if \<not> truthy u then (Some (400, ErrorBody ''URL is required''), s)
      else startLegacy u now None s)"

definition download :: "config \<Rightarrow> jsval \<Rightarrow> nat \<Rightarrow> string \<Rightarrow> server \<Rightarrow> response option \<times> server" where
  "download cfg u now stamp s =
     (case variant cfg of TS \<Rightarrow> download_ts cfg u now stamp s | JS \<Rightarrow> download_js u now s)"

text \<open>
  The subprocess of the \<open>k\<close>-th waiting legacy request ends: the handlers of
  \<^verbatim>\<open>downloadVideo\<close>, then \<^verbatim>\<open>.then\<close> or \<^verbatim>\<open>.catch\<close>, which both clear
  \<^verbatim>\<open>currentDownload\<close> before they answer the request.
\<close>

definition legacySettle :: "config \<Rightarrow> nat \<Rightarrow> outcome \<Rightarrow> server \<Rightarrow> server" where
  "legacySettle cfg k out s =
     (if k < length (legacy s) then
        (let item = legacy s ! k in
         case heap s item of
           None \<Rightarrow> s
         | Some it \<Rightarrow>
             (let (it', rejected) = settle (PORT cfg) out it
              in s\<lparr>heap := (heap s)(item \<mapsto> it'), legacy := dropAt k (legacy s), currentDownload := None\<rparr>))
      else s)"

definition legacyStdout :: "nat \<Rightarrow> real option \<Rightarrow> bool \<Rightarrow> server \<Rightarrow> server" where
  "legacyStdout k match mark s =
     (if k < length (legacy s) then modify (legacy s ! k) (onStdout match mark) s else s)"

subsection \<open>The server as a transition system\<close>






text \<open>The status of the item at an address, and the queued jobs that are downloading.\<close>

definition statusAt :: "server \<Rightarrow> nat \<Rightarrow> status option" where
  "statusAt s a = map_option status (heap s a)"

definition downloadingJobs :: "server \<Rightarrow> nat list" where
  "downloadingJobs s = filter (\<lambda>a. statusAt s a = Some Downloading) (downloadQueue s)"

subsection \<open>Choosing the source video\<close>

text \<open>
  \<^verbatim>\<open>String.prototype.startsWith\<close>, \<^verbatim>\<open>endsWith\<close> and \<^verbatim>\<open>includes\<close>. File names are
  read as lists of character codes, and \<^verbatim>\<open>sort()\<close> without a comparison function
  orders strings by their codes, which is the lexicographic order of the lists.
\<close>

definition startsWith :: "string \<Rightarrow> string \<Rightarrow> bool" where
  "startsWith s p = (take (length p) s = p)"

definition endsWith :: "string \<Rightarrow> string \<Rightarrow> bool" where
  "endsWith s p = (length p \<le> length s \<and> drop (length s - length p) s = p)"

fun includes_str :: "string \<Rightarrow> string \<Rightarrow> bool" where
  "includes_str [] p = (p = [])"
| "includes_str (c # cs) p = (startsWith (c # cs) p \<or> includes_str cs p)"

text \<open>The test of the filter: \<^verbatim>\<open>f.endsWith('.mp4') && !f.startsWith('clip_')\<close>.\<close>

definition isVideo :: "string \<Rightarrow> bool" where
  "isVideo f = (endsWith f ''.mp4'' \<and> \<not> startsWith f ''clip_'')"

text \<open>\<^verbatim>\<open>files.filter(...).sort().reverse()\<close>, on the listing \<^verbatim>\<open>readdirSync\<close> returns.\<close>

definition videoFiles :: "string list \<Rightarrow> string list" where
  "videoFiles files = rev (sort (filter isVideo files))"

definition audioFiles :: "string list \<Rightarrow> string list" where
  "audioFiles files = rev (sort (filter (\<lambda>f. endsWith f ''.m4a'') files))"

subsection \<open>Clip creation\<close>

text \<open>
  The ffmpeg command of \<^verbatim>\<open>POST /clip\<close> by its parts: \<^verbatim>\<open>-ss\<close>, the video input, the
  audio input that only \<^verbatim>\<open>server.js\<close> may add, \<^verbatim>\<open>-t\<close> and the output file; file names
  are relative to the download directory. What a handler does to the outside world is the
  list of its effects, in order.
\<close>

datatype command =
  Ffmpeg (cmd_ss: real) (cmd_input: string) (cmd_audio: "string option") (cmd_duration: real) (cmd_output: string)

datatype effect = ReadDir | Exec command

fun execs :: "effect list \<Rightarrow> command list" where
  "execs [] = []"
| "execs (ReadDir # es) = execs es"
| "execs (Exec c # es) = c # execs es"

text \<open>
  What the handler finds outside: the directory listing, the clock, how \<^verbatim>\<open>exec\<close> calls
  back (with an error and the text of stderr, or without), and the size of the output
  file, \<open>None\<close> if \<^verbatim>\<open>existsSync(outputFile)\<close> is false.
\<close>

datatype execResult = ExecFailed string | ExecDone

record clipEnv =
  files :: "string list"
  timestamp :: nat
  execResult :: execResult
  created :: "nat option"

text \<open>The callback of \<^verbatim>\<open>exec\<close>, the same in both servers but for the port.\<close>

definition clipCallback :: "nat \<Rightarrow> clipEnv \<Rightarrow> response" where
  "clipCallback port env =
     (case execResult env of
        ExecFailed stderr \<Rightarrow>
          (500, ErrorDetails ''Clip creation failed'' (drop (length stderr - 300) stderr))
      | ExecDone \<Rightarrow>
          (case created env of
             Some bytes \<Rightarrow>
               (200, Created (''clip_'' @ string_of_nat (timestamp env) @ ''.mp4'')
                             (localUrl port (''clip_'' @ string_of_nat (timestamp env) @ ''.mp4'')) bytes)
           | None \<Rightarrow> (500, ErrorBody ''Clip file not created'')))"

text \<open>
  \<^verbatim>\<open>POST /clip\<close> of the TypeScript server. A field is \<open>None\<close> when
  \<^verbatim>\<open>typeof\<close> of it is not \<^verbatim>\<open>'number'\<close>.
\<close>

definition clip_ts :: "nat \<Rightarrow> real option \<Rightarrow> real option \<Rightarrow> clipEnv \<Rightarrow> effect list \<times> response" where
  "clip_ts port startTime endTime env =
     (case (startTime, endTime) of
        (Some st, Some en) \<Rightarrow>
          (if st < 0 \<or> en \<le> st then ([], (400, ErrorBody ''Invalid time range''))
           else
             (let duration = en - st;
                  outputFile = ''clip_'' @ string_of_nat (timestamp env) @ ''.mp4''
              in case videoFiles (files env) of
                   [] \<Rightarrow> ([ReadDir], (404, ErrorBody ''No video file found''))
                 | v # others \<Rightarrow>
                     ([ReadDir, Exec (Ffmpeg st v None duration outputFile)], clipCallback port env)))
      | _ \<Rightarrow> ([], (400, ErrorBody ''startTime and endTime must be numbers'')))"

text \<open>
  \<^verbatim>\<open>POST /clip\<close> of \<^verbatim>\<open>server.js\<close>, which listens on port 3000. A field is \<open>None\<close>
  when it is \<^verbatim>\<open>undefined\<close>; the model leaves out requests whose fields are present but
  not numbers.
\<close>

definition clip_js :: "real option \<Rightarrow> real option \<Rightarrow> clipEnv \<Rightarrow> effect list \<times> response" where
  "clip_js startTime endTime env =
     (case (startTime, endTime) of
        (Some st, Some en) \<Rightarrow>
          (let duration = en - st;
               outputFile = ''clip_'' @ string_of_nat (timestamp env) @ ''.mp4''
           in case videoFiles (files env) of
                [] \<Rightarrow> ([ReadDir], (404, ErrorBody ''No video file found''))
              | v # others \<Rightarrow>
                  (let videoPrefix = takeWhile (\<lambda>c. c \<noteq> CHR ''.'') v;
                       matchingAudio = find (\<lambda>a. startsWith a videoPrefix) (audioFiles (files env))
                   in ([ReadDir, Exec (Ffmpeg st v matchingAudio duration outputFile)],
                       clipCallback 3000 env)))
      | _ \<Rightarrow> ([], (400, ErrorBody ''startTime and endTime are required'')))"

text \<open>A directory with a downloaded video and an earlier clip, and one with clips only.\<close>

definition sampleEnv :: clipEnv where
  "sampleEnv = \<lparr>files = [''video_1000.mp4'', ''clip_999.mp4''], timestamp = 2000,
                 execResult = ExecDone, created = Some 4096\<rparr>"

definition clipsOnlyEnv :: clipEnv where
  "clipsOnlyEnv = \<lparr>files = [''clip_999.mp4'', ''clip_998.mp4''], timestamp = 2000,
                    execResult = ExecDone, created = Some 4096\<rparr>"

text \<open>The same directory when ffmpeg refuses the command.\<close>

definition failingEnv :: clipEnv where
  "failingEnv = \<lparr>files = [''video_1000.mp4'', ''clip_999.mp4''], timestamp = 2000,
                  execResult = ExecFailed ''Invalid duration'', created = None\<rparr>"

subsection \<open>Transcription\<close>












subsection \<open>Deleting a file\<close>

text \<open>
  Paths are lists of segments from the root, and the file system says of a path whether
  it is a file or a directory. \<open>pathJoin\<close> is \<^verbatim>\<open>path.join(DOWNLOAD_DIR, filename)\<close> of
  the Node runtime for a normalised absolute \<^verbatim>\<open>DOWNLOAD_DIR\<close>: the name is cut at the
  separators of the platform (the slash, and on Windows the backslash too), empty and
  \<^verbatim>\<open>.\<close> segments are dropped and \<^verbatim>\<open>..\<close> goes one directory up.
\<close>

datatype kind = File | Dir

definition isSep :: "bool \<Rightarrow> char \<Rightarrow> bool" where
  "isSep win c = (c = CHR ''/'' \<or> (win \<and> c = CHR 0x5C))"

fun splitOn :: "(char \<Rightarrow> bool) \<Rightarrow> string \<Rightarrow> string list" where
  "splitOn sep [] = [[]]"
| "splitOn sep (c # cs) =
     (if sep c then [] # splitOn sep cs
      else (case splitOn sep cs of [] \<Rightarrow> [[c]] | seg # segs \<Rightarrow> (c # seg) # segs))"

fun resolve :: "string list \<Rightarrow> string list \<Rightarrow> string list" where
  "resolve dir [] = dir"
| "resolve dir (seg # segs) =
     (if seg = [] \<or> seg = ''.'' then resolve dir segs
      else if seg = ''..'' then resolve (butlast dir) segs
      else resolve (dir @ [seg]) segs)"

definition pathJoin :: "bool \<Rightarrow> string list \<Rightarrow> string \<Rightarrow> string list" where
  "pathJoin win dir name = resolve dir (splitOn (isSep win) name)"

text \<open>
  The body shared by both handlers of \<^verbatim>\<open>DELETE /file/:filename\<close>. \<^verbatim>\<open>unlinkSync\<close>
  throws on what is not a file, and the handler does not catch it.
\<close>

datatype thrown = UnlinkError

definition removeFile :: "bool \<Rightarrow> string list \<Rightarrow> string \<Rightarrow> (string list \<Rightarrow> kind option)
    \<Rightarrow> (string list \<Rightarrow> kind option) \<times> (thrown + response)" where
  "removeFile win dir name fsys =
     (let filePath = pathJoin win dir name in
      if fsys filePath \<noteq> None then
        (case fsys filePath of
           Some File \<Rightarrow> (fsys(filePath := None), Inr (200, Success))
         | _ \<Rightarrow> (fsys, Inl UnlinkError))
      else (fsys, Inr (404, ErrorBody ''File not found'')))"

definition delete_file_ts :: "bool \<Rightarrow> string list \<Rightarrow> string \<Rightarrow> (string list \<Rightarrow> kind option)
    \<Rightarrow> (string list \<Rightarrow> kind option) \<times> (thrown + response)" where
  "delete_file_ts win dir name fsys =
     (if includes_str name ''..'' \<or> includes_str name ''/'' \<or> includes_str name [CHR 0x5C]
      then (fsys, Inr (400, ErrorBody ''Invalid filename''))
      else removeFile win dir name fsys)"

definition delete_file_js :: "bool \<Rightarrow> string list \<Rightarrow> string \<Rightarrow> (string list \<Rightarrow> kind option)
    \<Rightarrow> (string list \<Rightarrow> kind option) \<times> (thrown + response)" where
  "delete_file_js win dir name fsys = removeFile win dir name fsys"

text \<open>An installation with one downloaded video beside the server's own source.\<close>

definition appFiles :: "string list \<Rightarrow> kind option" where
  "appFiles = (\<lambda>p. None)
     ([''app''] \<mapsto> Dir,
      [''app'', ''server.js''] \<mapsto> File,
      [''app'', ''downloads''] \<mapsto> Dir,
      [''app'', ''downloads'', ''video_1000.mp4''] \<mapsto> File)"

subsection \<open>Invariants of the queue\<close>

text \<open>
  What holds of the state between any two events: the queue has no address twice, every
  address in use is allocated, at most one drain loop is suspended and
  \<^verbatim>\<open>isProcessing\<close> says whether there is one, its item is the head of the queue if it
  is in the queue at all, the items of legacy requests are not in the queue, and a queued
  job that is downloading is the item of the drain loop.
\<close>

definition queue_inv :: "server \<Rightarrow> bool" where
  "queue_inv s \<longleftrightarrow>
     distinct (downloadQueue s)
   \<and> (\<forall>a \<in> set (downloadQueue s). a < nextAddr s)
   \<and> (\<forall>a. a < nextAddr s \<longrightarrow> heap s a \<noteq> None)
   \<and> (\<forall>a \<in> set (loops s). a < nextAddr s)
   \<and> (\<forall>a \<in> set (legacy s). a < nextAddr s)
   \<and> length (loops s) \<le> 1
   \<and> (isProcessing s \<longleftrightarrow> loops s \<noteq> [])
   \<and> (\<not> isProcessing s \<longrightarrow> downloadQueue s = [])
   \<and> (\<forall>a \<in> set (loops s). a \<notin> set (tl (downloadQueue s)))
   \<and> (\<forall>a \<in> set (legacy s). a \<notin> set (downloadQueue s))
   \<and> (\<forall>a \<in> set (downloadQueue s). statusAt s a = Some Downloading \<longrightarrow> a \<in> set (loops s))"





subsection \<open>Sample configurations and requests\<close>

text \<open>
  For the TypeScript server a stand-in for the URL parser of the runtime that accepts
  what starts with \<^verbatim>\<open>https://\<close>; \<^verbatim>\<open>server.js\<close> never parses a URL.
\<close>

definition tsConfig :: config where
  "tsConfig = \<lparr>variant = TS, validURL = (\<lambda>u. take 8 u = ''https://''), PORT = 3000\<rparr>"





text \<open>\<^verbatim>\<open>server.js\<close> after \<^verbatim>\<open>POST /queue/add\<close> with a url that is no URL.\<close>

definition afterBadUrl :: server where
  "afterBadUrl = snd (queue_add_js (JStr ''not a url'') JUndefined 1000 ''2026-01-01T00:00:01.000Z'' init)"



section \<open>Supporting lemmas\<close>

subsection \<open>The invariants hold in every reachable state\<close>
































subsection \<open>A finished download keeps its fields\<close>









lemmas run_defs = init_def queue_add_def queue_add_ts_def queue_add_js_def enqueue_def newItem_def
  processQueue_def loopHead_def modify_def loopSettle_def loopStdout_def afterAwait_def settle_def
  onStdout_def dropAt_def videoName_def localUrl_def codeText_def string_of_int_def
  string_of_nat.simps digit_def download_def download_ts_def download_js_def startLegacy_def
  legacySettle_def legacyStdout_def queue_cancel_def statusAt_def downloadingJobs_def Let_def








subsection \<open>The newest video\<close>

lemma sort_Nil_iff: "sort xs = [] \<longleftrightarrow> xs = []"
  by (metis length_0_conv length_sort)

lemma sorted_le_last: "sorted xs \<Longrightarrow> x \<in> set xs \<Longrightarrow> x \<le> last xs"
  by (induction xs) auto

lemma videoFiles_Nil: "videoFiles fs = [] \<longleftrightarrow> \<not> list_ex isVideo fs"
  by (simp add: videoFiles_def sort_Nil_iff filter_empty_conv list_ex_iff)

lemma videoFiles_Cons:
  assumes "videoFiles fs = v # others"
  shows "v \<in> set fs \<and> isVideo v \<and> (\<forall>g \<in> set fs. isVideo g \<longrightarrow> g \<le> v)"
proof -
  let ?c = "filter isVideo fs"
  from assms have ne: "sort ?c \<noteq> []" by (auto simp: videoFiles_def)
  from assms have "v = hd (rev (sort ?c))" by (simp add: videoFiles_def)
  then have v: "v = last (sort ?c)" by (simp add: hd_rev)
  from ne have "last (sort ?c) \<in> set (sort ?c)" by (rule last_in_set)
  with v have "v \<in> set ?c" by simp
  moreover have "\<forall>g \<in> set ?c. g \<le> v"
  proof
    fix g assume "g \<in> set ?c"
    then have "g \<in> set (sort ?c)" by simp
    with sorted_le_last [of "sort ?c" g] v show "g \<le> v" by simp
  qed
  ultimately show ?thesis by auto
qed

lemma videoFiles_cases:
  "(if list_ex isVideo fs
    then \<exists>v others. videoFiles fs = v # others
    else videoFiles fs = [])"
  using videoFiles_Nil [of fs] by (cases "videoFiles fs") auto

subsection \<open>The checks of the TypeScript server\<close>

lemma clip_ts_rejects:
  "en \<le> st \<or> st < 0 \<Longrightarrow> clip_ts port (Some st) (Some en) env = ([], (400, ErrorBody ''Invalid time range''))"
  by (auto simp: clip_ts_def)

lemma clip_ts_accepts:
  "0 \<le> st \<Longrightarrow> st < en \<Longrightarrow> fst (snd (clip_ts port (Some st) (Some en) env)) \<noteq> 400"
  by (simp add: clip_ts_def Let_def clipCallback_def split: list.splits execResult.splits option.splits)

lemma queue_add_ts_rejects:
  "(case u of JStr str \<Rightarrow> str = [] \<or> \<not> validURL cfg str | _ \<Rightarrow> True)
   \<Longrightarrow> fst (fst (queue_add_ts cfg u t now stamp s)) = 400 \<and> snd (queue_add_ts cfg u t now stamp s) = s"
  by (cases u) (auto simp: queue_add_ts_def)

lemma queue_add_ts_accepts:
  "str \<noteq> [] \<Longrightarrow> validURL cfg str
   \<Longrightarrow> queue_add_ts cfg (JStr str) t now stamp s = enqueue (JStr str) t now stamp s"
  by (simp add: queue_add_ts_def)

lemma enqueue_appends:
  "queue_inv s \<Longrightarrow>
   downloadQueue (snd (enqueue u t now stamp s)) = downloadQueue s @ [nextAddr s]
   \<and> fst (fst (enqueue u t now stamp s)) = 200
   \<and> isProcessing (snd (enqueue u t now stamp s))
   \<and> (\<exists>it. heap (snd (enqueue u t now stamp s)) (nextAddr s) = Some it \<and> url it = u
        \<and> status it = (if isProcessing s then Queued else Downloading))"
  by (cases "downloadQueue s")
     (auto simp: enqueue_def newItem_def Let_def processQueue_def loopHead_def modify_def queue_inv_def)

subsection \<open>Files of the download directory\<close>


subsection \<open>File names the TypeScript server lets through\<close>

lemma includes_str_char: "c \<in> set s \<Longrightarrow> includes_str s [c]"
  by (induction s) (auto simp: startsWith_def)

lemma splitOn_none: "\<forall>c \<in> set s. \<not> sep c \<Longrightarrow> splitOn sep s = [s]"
  by (induction s) auto

lemma includes_str_self: "includes_str s s"
  by (cases s) (simp_all add: startsWith_def)

lemma pathJoin_plain:
  assumes "\<not> includes_str name ''..''" and "\<not> includes_str name ''/''" and "\<not> includes_str name [CHR 0x5C]"
  shows "pathJoin win dir name = (if name = [] \<or> name = ''.'' then dir else dir @ [name])"
proof -
  from assms(2) have "CHR ''/'' \<notin> set name" using includes_str_char by blast
  moreover from assms(3) have "CHR 0x5C \<notin> set name" using includes_str_char by blast
  ultimately have "\<forall>c \<in> set name. \<not> isSep win c" by (auto simp: isSep_def)
  then have s: "splitOn (isSep win) name = [name]" by (rule splitOn_none)
  from assms(1) have "name \<noteq> ''..''" using includes_str_self [of "''..''"] by auto
  with s show ?thesis by (simp add: pathJoin_def)
qed

lemma delete_file_ts_rejects:
  "includes_str name ''..'' \<or> includes_str name ''/'' \<or> includes_str name [CHR 0x5C]
   \<Longrightarrow> delete_file_ts win dir name fsys = (fsys, Inr (400, ErrorBody ''Invalid filename''))"
  by (simp add: delete_file_ts_def)

lemma delete_file_ts_inside:
  assumes "fsys dir \<noteq> Some File"
  shows "fst (delete_file_ts win dir name fsys) = fsys
       \<or> fst (delete_file_ts win dir name fsys) = fsys(dir @ [name] := None)"
proof (cases "includes_str name ''..'' \<or> includes_str name ''/'' \<or> includes_str name [CHR 0x5C]")
  case True
  then show ?thesis by (simp add: delete_file_ts_def)
next
  case False
  then have p: "pathJoin win dir name = (if name = [] \<or> name = ''.'' then dir else dir @ [name])"
    by (intro pathJoin_plain) simp_all
  with False assms show ?thesis
    by (auto simp: delete_file_ts_def removeFile_def Let_def split: option.splits kind.splits)
qed

lemma delete_file_ts_plain:
  assumes "\<not> includes_str name ''..''" and "\<not> includes_str name ''/''" and "\<not> includes_str name [CHR 0x5C]"
    and "name \<noteq> []" and "name \<noteq> ''.''"
  shows "delete_file_ts win dir name fsys =
          (case fsys (dir @ [name]) of
             None \<Rightarrow> (fsys, Inr (404, ErrorBody ''File not found''))
           | Some File \<Rightarrow> (fsys(dir @ [name] := None), Inr (200, Success))
           | Some Dir \<Rightarrow> (fsys, Inl UnlinkError))"
  using assms pathJoin_plain [OF assms(1-3), of win dir]
  by (simp add: delete_file_ts_def removeFile_def Let_def split: option.splits kind.splits)

subsection \<open>The legacy endpoint\<close>




section \<open>Main theorems\<close>

text \<open>
  C2. Nine words give two captions, the first with words 0 to 7 from the start of word 0
  to the end of word 7. The second holds word 8 alone and ends where word 8 ends, but its
  start time is the 0 of a fresh caption and not the start of word 8 (14 here): the start
  is only assigned when the index in the whole word list is 0.
\<close>

theorem formatCaptions_nine_words:
  "length (formatCaptions (Some nineWords)) = 2
   \<and> c_words (formatCaptions (Some nineWords) ! 0) =
       map (\<lambda>w. \<lparr>cw_text = tw_word w, cw_startTime = tw_start w, cw_endTime = tw_end w\<rparr>) (take 8 nineWords)
   \<and> c_text (formatCaptions (Some nineWords) ! 0) = ''hi there this is a test of the''
   \<and> c_startTime (formatCaptions (Some nineWords) ! 0) = tw_start (nineWords ! 0)
   \<and> c_endTime (formatCaptions (Some nineWords) ! 0) = tw_end (nineWords ! 7)
   \<and> c_words (formatCaptions (Some nineWords) ! 1) =
       [\<lparr>cw_text = ''chunks'', cw_startTime = 14, cw_endTime = 19\<rparr>]
   \<and> c_text (formatCaptions (Some nineWords) ! 1) = ''chunks''
   \<and> c_endTime (formatCaptions (Some nineWords) ! 1) = tw_end (nineWords ! 8)
   \<and> tw_start (nineWords ! 8) = 14
   \<and> c_startTime (formatCaptions (Some nineWords) ! 1) = 0"
  by (simp add: formatCaptions_def nineWords_def mkWord_def pushWord_def emptyCaption_def Let_def)










text \<open>
  C5. For a request with a valid time range, both servers read the directory and, when it
  holds a name that ends in \<^verbatim>\<open>.mp4\<close> and does not start with \<^verbatim>\<open>clip_\<close>, run ffmpeg
  on one such name that is lexicographically greatest among them, never on a \<^verbatim>\<open>clip_\<close>
  file; when it holds none they answer 404 and run nothing.
\<close>

theorem clip_source_selection:
  assumes "0 \<le> st" and "st < en"
  shows "if list_ex isVideo (files env)
         then (\<exists>v. map cmd_input (execs (fst (clip_ts port (Some st) (Some en) env))) = [v]
                 \<and> map cmd_input (execs (fst (clip_js (Some st) (Some en) env))) = [v]
                 \<and> v \<in> set (files env) \<and> endsWith v ''.mp4'' \<and> \<not> startsWith v ''clip_''
                 \<and> (\<forall>g \<in> set (files env). isVideo g \<longrightarrow> g \<le> v))
         else clip_ts port (Some st) (Some en) env = ([ReadDir], (404, ErrorBody ''No video file found''))
            \<and> clip_js (Some st) (Some en) env = ([ReadDir], (404, ErrorBody ''No video file found''))"
proof (cases "list_ex isVideo (files env)")
  case False
  then have "videoFiles (files env) = []" by (simp add: videoFiles_Nil)
  with False assms show ?thesis by (simp add: clip_ts_def clip_js_def Let_def)
next
  case True
  with videoFiles_cases [of "files env"] obtain v others where vf: "videoFiles (files env) = v # others"
    by auto
  from videoFiles_Cons [OF vf] have "v \<in> set (files env)" "isVideo v"
    "\<forall>g \<in> set (files env). isVideo g \<longrightarrow> g \<le> v" by simp_all
  with True vf assms show ?thesis
    by (auto simp: clip_ts_def clip_js_def Let_def isVideo_def)
qed

theorem clip_source_selection_witness:
  "(0::real) \<le> 10 \<and> (10::real) < 40
   \<and> list_ex isVideo (files sampleEnv)
   \<and> map cmd_input (execs (fst (clip_ts 3000 (Some 10) (Some 40) sampleEnv))) = [''video_1000.mp4'']
   \<and> map cmd_input (execs (fst (clip_js (Some 10) (Some 40) sampleEnv))) = [''video_1000.mp4'']
   \<and> \<not> list_ex isVideo (files clipsOnlyEnv)
   \<and> clip_ts 3000 (Some 10) (Some 40) clipsOnlyEnv = ([ReadDir], (404, ErrorBody ''No video file found''))
   \<and> clip_js (Some 10) (Some 40) clipsOnlyEnv = ([ReadDir], (404, ErrorBody ''No video file found''))"
proof -
  have a: "(0::real) \<le> 10" and b: "(10::real) < 40" by simp_all
  have s: "list_ex isVideo (files sampleEnv)"
    by (simp add: sampleEnv_def isVideo_def endsWith_def startsWith_def)
  have c: "\<not> list_ex isVideo (files clipsOnlyEnv)"
    by (simp add: clipsOnlyEnv_def isVideo_def endsWith_def startsWith_def)
  have i: "\<And>v. v \<in> set (files sampleEnv) \<Longrightarrow> isVideo v \<Longrightarrow> v = ''video_1000.mp4''"
    by (auto simp: sampleEnv_def isVideo_def endsWith_def startsWith_def)
  from clip_source_selection [OF a b, of sampleEnv 3000] s i
  have "map cmd_input (execs (fst (clip_ts 3000 (Some 10) (Some 40) sampleEnv))) = [''video_1000.mp4'']
      \<and> map cmd_input (execs (fst (clip_js (Some 10) (Some 40) sampleEnv))) = [''video_1000.mp4'']"
    by (auto simp: isVideo_def)
  moreover from clip_source_selection [OF a b, of clipsOnlyEnv 3000] c
  have "clip_ts 3000 (Some 10) (Some 40) clipsOnlyEnv = ([ReadDir], (404, ErrorBody ''No video file found''))
      \<and> clip_js (Some 10) (Some 40) clipsOnlyEnv = ([ReadDir], (404, ErrorBody ''No video file found''))"
    by simp
  ultimately show ?thesis using s c by simp
qed

text \<open>
  C3. \<^verbatim>\<open>server.js\<close> only tests the two fields for \<^verbatim>\<open>undefined\<close>: with start 40 and
  end 10, or with start -5, it reads the directory and runs ffmpeg (with the negative
  duration or the negative start) and answers what the run gives, 500 or 200, never 400.
  The TypeScript server answers the same requests with 400 and no effect.
\<close>

theorem clip_js_no_range_check:
  "clip_js (Some 40) (Some 10) failingEnv
     = ([ReadDir, Exec (Ffmpeg 40 ''video_1000.mp4'' None (- 30) ''clip_2000.mp4'')],
        (500, ErrorDetails ''Clip creation failed'' ''Invalid duration''))
   \<and> clip_js (Some (- 5)) (Some 10) sampleEnv
     = ([ReadDir, Exec (Ffmpeg (- 5) ''video_1000.mp4'' None 15 ''clip_2000.mp4'')],
        (200, Created ''clip_2000.mp4'' ''http://localhost:3000/downloads/clip_2000.mp4'' 4096))
   \<and> clip_ts 3000 (Some 40) (Some 10) failingEnv = ([], (400, ErrorBody ''Invalid time range''))
   \<and> clip_ts 3000 (Some (- 5)) (Some 10) sampleEnv = ([], (400, ErrorBody ''Invalid time range''))"
  by (simp add: clip_js_def clip_ts_def failingEnv_def sampleEnv_def videoFiles_def audioFiles_def
        isVideo_def endsWith_def startsWith_def clipCallback_def localUrl_def Let_def
        string_of_nat.simps digit_def)

text \<open>
  C8. \<^verbatim>\<open>server.js\<close> only tests that the url is not falsy: the request with the url
  \<^verbatim>\<open>not a url\<close> is answered with success, and the job is in the queue and downloading.
  The TypeScript server, whose URL parser rejects the string, answers 400 and leaves the
  state as it was.
\<close>

theorem queue_add_js_accepts_malformed_url:
  "fst (queue_add_js (JStr ''not a url'') JUndefined 1000 ''2026-01-01T00:00:01.000Z'' init)
      = (200, Added ''1000'' 1)
   \<and> downloadQueue afterBadUrl = [0]
   \<and> map_option url (heap afterBadUrl 0) = Some (JStr ''not a url'')
   \<and> statusAt afterBadUrl 0 = Some Downloading
   \<and> loops afterBadUrl = [0]
   \<and> queue_add_ts tsConfig (JStr ''not a url'') JUndefined 1000 ''2026-01-01T00:00:01.000Z'' init
      = ((400, ErrorBody ''Invalid URL format''), init)"
  by (simp add: afterBadUrl_def tsConfig_def run_defs)



text \<open>
  C9. \<^verbatim>\<open>server.js\<close> joins the file name to the download directory unchecked: the name
  \<^verbatim>\<open>../server.js\<close> (sent as \<^verbatim>\<open>..%2Fserver.js\<close>) resolves to a file beside the
  download directory, which is deleted, and the answer is success. The TypeScript server
  answers the same request with 400 and deletes nothing.
\<close>

theorem delete_file_js_path_traversal:
  "pathJoin False [''app'', ''downloads''] ''../server.js'' = [''app'', ''server.js'']
   \<and> appFiles [''app'', ''server.js''] = Some File
   \<and> snd (delete_file_js False [''app'', ''downloads''] ''../server.js'' appFiles) = Inr (200, Success)
   \<and> fst (delete_file_js False [''app'', ''downloads''] ''../server.js'' appFiles) [''app'', ''server.js''] = None
   \<and> delete_file_ts False [''app'', ''downloads''] ''../server.js'' appFiles
       = (appFiles, Inr (400, ErrorBody ''Invalid filename''))"
  by (simp add: delete_file_js_def delete_file_ts_def removeFile_def pathJoin_def isSep_def
        appFiles_def startsWith_def Let_def)

end
